theory Spec2Isabelle
  imports Complex_Main "HOL-Library.Sublist"
begin

unbundle bit_operations_syntax

section \<open>Euclidean uniform tilings: the reflection engine of \<^verbatim>\<open>Example_Euclidean_uniform_tilings.py\<close>\<close>

text \<open>
  The development embeds the class \<^verbatim>\<open>EuclideanUniformTiling\<close>: the mirror solver
  \<^verbatim>\<open>get_mirrors\<close>, the reflection operators of \<^verbatim>\<open>get_reflections\<close>, the face builder
  \<^verbatim>\<open>get_fundamental_faces\<close>, the plane projection, the breadth-first generator
  \<^verbatim>\<open>traverse\<close> and the drawing loop of \<^verbatim>\<open>draw\<close>.

  Numbers. The source computes in IEEE double precision through numpy. A finite double is
  idealised as a real number (rounding, overflow and the sign of zero are not modelled);
  the three special values that numpy returns instead of raising (\<^verbatim>\<open>inf\<close>, \<^verbatim>\<open>-inf\<close>,
  \<^verbatim>\<open>nan\<close>) are kept as values of their own, with the arithmetic numpy gives them.
  A Python exception is a value \<open>Inl e\<close> of a sum type.
\<close>

subsection \<open>numpy scalars\<close>

datatype npfloat = Fin real | PInf | NInf | NaN

instantiation npfloat :: "{plus, minus, uminus, times, inverse, abs}"
begin

fun plus_npfloat :: "npfloat \<Rightarrow> npfloat \<Rightarrow> npfloat" where
  "Fin x + Fin y = Fin (x + y)"
| "NaN + _ = NaN"
| "_ + NaN = NaN"
| "PInf + NInf = NaN"
| "NInf + PInf = NaN"
| "PInf + _ = PInf"
| "_ + PInf = PInf"
| "NInf + _ = NInf"
| "_ + NInf = NInf"

fun uminus_npfloat :: "npfloat \<Rightarrow> npfloat" where
  "- Fin x = Fin (- x)"
| "- PInf = NInf"
| "- NInf = PInf"
| "- NaN = NaN"

definition minus_npfloat :: "npfloat \<Rightarrow> npfloat \<Rightarrow> npfloat" where
  "(a::npfloat) - b = a + (- b)"

fun times_npfloat :: "npfloat \<Rightarrow> npfloat \<Rightarrow> npfloat" where
  "Fin x * Fin y = Fin (x * y)"
| "NaN * _ = NaN"
| "_ * NaN = NaN"
| "Fin x * PInf = (if x = 0 then NaN else if 0 < x then PInf else NInf)"
| "Fin x * NInf = (if x = 0 then NaN else if 0 < x then NInf else PInf)"
| "PInf * Fin y = (if y = 0 then NaN else if 0 < y then PInf else NInf)"
| "NInf * Fin y = (if y = 0 then NaN else if 0 < y then NInf else PInf)"
| "PInf * PInf = PInf"
| "PInf * NInf = NInf"
| "NInf * PInf = NInf"
| "NInf * NInf = PInf"

text \<open>
  Division of numpy scalars and arrays never raises: a zero divisor gives an infinity of the
  sign of the dividend, or \<^verbatim>\<open>nan\<close> for \<^verbatim>\<open>0/0\<close> (with a \<^verbatim>\<open>RuntimeWarning\<close> only).
\<close>

fun divide_npfloat :: "npfloat \<Rightarrow> npfloat \<Rightarrow> npfloat" where
  "Fin x div Fin y =
     (if y \<noteq> 0 then Fin (x / y)
      else if x = 0 then NaN else if 0 < x then PInf else NInf)"
| "NaN div _ = NaN"
| "_ div NaN = NaN"
| "Fin x div PInf = Fin 0"
| "Fin x div NInf = Fin 0"
| "PInf div Fin y = (if 0 \<le> y then PInf else NInf)"
| "NInf div Fin y = (if 0 \<le> y then NInf else PInf)"
| "PInf div PInf = NaN"
| "PInf div NInf = NaN"
| "NInf div PInf = NaN"
| "NInf div NInf = NaN"

definition inverse_npfloat :: "npfloat \<Rightarrow> npfloat" where
  "inverse (a::npfloat) = Fin 1 div a"

fun abs_npfloat :: "npfloat \<Rightarrow> npfloat" where
  "\<bar>Fin x\<bar> = Fin \<bar>x\<bar>"
| "\<bar>PInf\<bar> = PInf"
| "\<bar>NInf\<bar> = PInf"
| "\<bar>NaN\<bar> = NaN"

instance ..

end

text \<open>\<^verbatim>\<open>np.sqrt\<close>: \<^verbatim>\<open>nan\<close> on a negative argument, never an exception.\<close>

fun np_sqrt :: "npfloat \<Rightarrow> npfloat" where
  "np_sqrt (Fin x) = (if x < 0 then NaN else Fin (sqrt x))"
| "np_sqrt PInf = PInf"
| "np_sqrt NInf = NaN"
| "np_sqrt NaN = NaN"



subsection \<open>Exceptions\<close>

datatype error = IndexError | ValueError | ZeroDivisionError

definition bindE :: "error + 'a \<Rightarrow> ('a \<Rightarrow> error + 'b) \<Rightarrow> error + 'b" where
  "bindE m f = (case m of Inl e \<Rightarrow> Inl e | Inr x \<Rightarrow> f x)"

text \<open>Indexing a Python list by a non-negative index.\<close>

definition idx :: "'a list \<Rightarrow> nat \<Rightarrow> error + 'a" where
  "idx xs i = (if i < length xs then Inr (xs ! i) else Inl IndexError)"

subsection \<open>Arrays\<close>

text \<open>
  A one-dimensional array is a list of scalars, a two-dimensional array the list of its rows.
  The rows of an array have one length (\<open>rectangular\<close>); \<^verbatim>\<open>np.asarray\<close> raises
  \<^verbatim>\<open>ValueError\<close> on a nested list that is not. \<open>mget\<close> and \<open>mset\<close> are
  \<^verbatim>\<open>M[i, j]\<close> read and written; the functions that use them check the shape first,
  where numpy raises \<^verbatim>\<open>IndexError\<close>.
\<close>

type_synonym vec = "npfloat list"
type_synonym mat = "npfloat list list"






text \<open>\<^verbatim>\<open>np.dot\<close> of two one-dimensional arrays of the same length.\<close>

definition np_dot :: "vec \<Rightarrow> vec \<Rightarrow> npfloat" where
  "np_dot v w = foldl (+) (Fin 0) (map2 (*) v w)"

subsection \<open>The mirror solver\<close>




subsection \<open>Reflections\<close>

text \<open>
  \<^verbatim>\<open>reflect(v, normal, dist) = v - 2 * (np.dot(v, normal) + dist) * normal\<close>; \<^verbatim>\<open>np.dot\<close>
  raises \<^verbatim>\<open>ValueError\<close> when the two arrays differ in length. (The parameter
  \<^verbatim>\<open>dist\<close> is written \<open>dst\<close>: \<open>dist\<close> is the metric of the library.)
\<close>

definition reflect :: "vec \<Rightarrow> vec \<Rightarrow> npfloat \<Rightarrow> error + vec" where
  "reflect v normal dst =
     (if length v \<noteq> length normal then Inl ValueError
      else Inr (map2 (\<lambda>x n. x - Fin 2 * (np_dot v normal + dst) * n) v normal))"

definition get_reflections :: "mat \<Rightarrow> npfloat list \<Rightarrow> (vec \<Rightarrow> error + vec) list" where
  "get_reflections mirrors init_dist =
     map (\<lambda>(n, d). (\<lambda>v. reflect v n d)) (zip mirrors init_dist)"

subsection \<open>Projection to the plane\<close>

text \<open>\<^verbatim>\<open>np.array(v[:2]) / v[-1]\<close>; only \<^verbatim>\<open>v[-1]\<close> of an empty array raises.\<close>

definition project_to_plane :: "vec \<Rightarrow> error + vec" where
  "project_to_plane v =
     (if v = [] then Inl IndexError else Inr (map (\<lambda>x. x / last v) (take 2 v)))"

subsection \<open>The word automaton\<close>

text \<open>
  Modelled from the spec: the module \<^verbatim>\<open>automata\<close> is not part of the sources. Its
  contract gives an automaton a start state and, for each state, the finite sequence
  \<^verbatim>\<open>all_transitions()\<close> of pairs of a generator symbol and a successor state. A symbol
  is a natural number; that it is one of 0, 1, 2 is not assumed, and indexing the list of
  reflections by a symbol out of range raises \<^verbatim>\<open>IndexError\<close> as in Python.
\<close>

record 'q dfa =
  start :: 'q
  all_transitions :: "'q \<Rightarrow> (nat \<times> 'q) list"

subsection \<open>Breadth-first traversal\<close>

text \<open>A record of the queue: state, word, number of steps, polygon.\<close>

type_synonym ('q, 'p) trec = "'q \<times> nat list \<times> nat \<times> 'p list"

text \<open>A list comprehension whose body may raise: the first exception ends it.\<close>

fun mapE :: "('a \<Rightarrow> error + 'b) \<Rightarrow> 'a list \<Rightarrow> error + 'b list" where
  "mapE f [] = Inr []"
| "mapE f (x # xs) = bindE (f x) (\<lambda>y. bindE (mapE f xs) (\<lambda>ys. Inr (y # ys)))"

text \<open>\<^verbatim>\<open>[self.reflections[symbol](p) for p in shape]\<close>\<close>

definition reflect_shape :: "('p \<Rightarrow> error + 'p) list \<Rightarrow> nat \<Rightarrow> 'p list \<Rightarrow> error + 'p list" where
  "reflect_shape R symbol shape = mapE (\<lambda>p. bindE (idx R symbol) (\<lambda>r. r p)) shape"

text \<open>
  The inner \<^verbatim>\<open>for\<close> loop of \<^verbatim>\<open>traverse\<close>: the records appended to the queue for one
  dequeued record, in the order of the transitions.
\<close>

definition successors ::
  "('q \<Rightarrow> (nat \<times> 'q) list) \<Rightarrow> ('p \<Rightarrow> error + 'p) list \<Rightarrow> ('q, 'p) trec
     \<Rightarrow> error + ('q, 'p) trec list" where
  "successors tr R rec =
     (case rec of (state, word, steps, shape) \<Rightarrow>
        mapE (\<lambda>(symbol, target).
                bindE (reflect_shape R symbol shape)
                  (\<lambda>shape'. Inr (target, word @ [symbol], steps + 1, shape')))
             (tr state))"

text \<open>
  The generator is modelled by what it yields: the list of the records yielded, and the
  exception that ended it, if one did. \<open>yield x rest\<close> yields \<open>x\<close> and goes on as
  \<open>rest\<close>.
\<close>

definition yield :: "'a \<Rightarrow> 'a list \<times> error option \<Rightarrow> 'a list \<times> error option" where
  "yield x rest = (x # fst rest, snd rest)"

text \<open>
  The size of the tree that the loop still has to visit, which decreases by one with each
  dequeued record: \<open>tree_size tr k s\<close> counts the paths of at most \<open>k\<close> transitions from
  \<open>s\<close>.
\<close>

fun tree_size :: "('q \<Rightarrow> (nat \<times> 'q) list) \<Rightarrow> nat \<Rightarrow> 'q \<Rightarrow> nat" where
  "tree_size tr 0 s = 1"
| "tree_size tr (Suc k) s = Suc (sum_list (map (\<lambda>(a, t). tree_size tr k t) (tr s)))"

definition queue_size :: "('q \<Rightarrow> (nat \<times> 'q) list) \<Rightarrow> int \<Rightarrow> ('q, 'p) trec list \<Rightarrow> nat" where
  "queue_size tr depth queue =
     sum_list (map (\<lambda>(state, word, steps, shape). tree_size tr (nat (depth - int steps)) state)
                 queue)"

lemma mapE_Inr_map:
  assumes "mapE f xs = Inr ys" and "\<And>x y. f x = Inr y \<Longrightarrow> g y = h x"
  shows "map g ys = map h xs"
  using assms(1)
proof (induction xs arbitrary: ys)
  case Nil
  then show ?case by simp
next
  case (Cons x xs)
  then show ?case
    by (auto simp: bindE_def assms(2) split: sum.splits)
qed

lemma successors_size:
  assumes "successors tr R (state, word, steps, shape) = Inr new" and "int steps < depth"
  shows "Suc (queue_size tr depth new) = tree_size tr (nat (depth - int steps)) state"
proof -
  have "map (\<lambda>(state, word, steps, shape). tree_size tr (nat (depth - int steps)) state) new =
        map (\<lambda>(a, t). tree_size tr (nat (depth - int (steps + 1))) t) (tr state)"
    using assms(1) unfolding successors_def
    by (simp, elim mapE_Inr_map) (auto simp: bindE_def split: sum.splits)
  moreover have "nat (depth - int steps) = Suc (nat (depth - int (steps + 1)))"
    using assms(2) by simp
  ultimately show ?thesis
    by (simp add: queue_size_def)
qed

text \<open>
  The \<^verbatim>\<open>while queue\<close> loop: the head of the queue is yielded, and its successors are
  appended behind the rest of the queue when \<^verbatim>\<open>steps < depth\<close>.
\<close>

function traverse_loop ::
  "('q \<Rightarrow> (nat \<times> 'q) list) \<Rightarrow> ('p \<Rightarrow> error + 'p) list \<Rightarrow> int \<Rightarrow> ('q, 'p) trec list
     \<Rightarrow> ('q, 'p) trec list \<times> error option" where
  "traverse_loop tr R depth [] = ([], None)"
| "traverse_loop tr R depth ((state, word, steps, shape) # queue) =
     (if int steps < depth then
        (case successors tr R (state, word, steps, shape) of
           Inl e \<Rightarrow> ([(state, word, steps, shape)], Some e)
         | Inr new \<Rightarrow>
             yield (state, word, steps, shape) (traverse_loop tr R depth (queue @ new)))
      else yield (state, word, steps, shape) (traverse_loop tr R depth queue))"
  by pat_completeness auto
termination
proof (relation "measure (\<lambda>(tr, R, depth, queue). queue_size tr depth queue)")
  show "wf (measure (\<lambda>(tr, R, depth, queue). queue_size tr depth queue))"
    by simp
next
  fix tr :: "'q \<Rightarrow> (nat \<times> 'q) list" and R :: "('p \<Rightarrow> error + 'p) list"
    and depth state word steps shape queue new
  assume "int steps < depth" and "successors tr R (state, word, steps, shape) = Inr new"
  from successors_size [OF this(2) this(1)]
  show "((tr, R, depth, queue @ new), (tr, R, depth, (state, word, steps, shape) # queue))
          \<in> measure (\<lambda>(tr, R, depth, queue). queue_size tr depth queue)"
    by (simp add: queue_size_def)
next
  fix tr :: "'q \<Rightarrow> (nat \<times> 'q) list" and R :: "('p \<Rightarrow> error + 'p) list"
    and depth state word steps shape queue
  assume "\<not> int steps < depth"
  then show "((tr, R, depth, queue), (tr, R, depth, (state, word, steps, shape) # queue))
          \<in> measure (\<lambda>(tr, R, depth, queue). queue_size tr depth queue)"
    by (simp add: queue_size_def)
qed

subsection \<open>The tiling\<close>

text \<open>
  The attributes of an instance. The constructor calls \<^verbatim>\<open>helpers.make_symmetry_matrix\<close>,
  \<^verbatim>\<open>automata.get_automaton\<close> and \<^verbatim>\<open>helpers.get_init_point\<close>, which are not part of the
  sources: the Coxeter matrix, the automaton and the initial point of an instance are
  taken as they are found in it.
\<close>

record 'q tiling =
  active :: "bool list"
  cox_mat :: "int list list"
  dfa :: "'q dfa"
  mirrors :: mat
  init_v :: vec
  reflections :: "(vec \<Rightarrow> error + vec) list"
  fundamental_faces :: "vec list list"



definition traverse ::
  "'q tiling \<Rightarrow> int \<Rightarrow> vec list \<Rightarrow> ('q, vec) trec list \<times> error option" where
  "traverse T depth domain =
     traverse_loop (all_transitions (dfa T)) (reflections T) depth
       [(start (dfa T), [], 0, domain)]"

subsection \<open>Fundamental faces\<close>

text \<open>\<^verbatim>\<open>self.reflections[a](self.reflections[b](P))\<close>\<close>

definition reflect2 :: "('p \<Rightarrow> error + 'p) list \<Rightarrow> nat \<Rightarrow> nat \<Rightarrow> 'p \<Rightarrow> error + 'p" where
  "reflect2 R a b P = bindE (idx R a) (\<lambda>ra. bindE (idx R b) (\<lambda>rb. bindE (rb P) ra))"

text \<open>
  The loop of the case of two active mirrors, with the number of rounds left, and the loop
  of the two cases of one active mirror; \<open>f0\<close> is the face built so far.
\<close>

fun face_loop2 ::
  "('p \<Rightarrow> error + 'p) list \<Rightarrow> nat \<Rightarrow> nat \<Rightarrow> nat \<Rightarrow> 'p \<Rightarrow> 'p \<Rightarrow> 'p list \<Rightarrow> error + 'p list" where
  "face_loop2 R i j 0 P Q f0 = Inr f0"
| "face_loop2 R i j (Suc k) P Q f0 =
     bindE (reflect2 R j i P) (\<lambda>P'.
     bindE (reflect2 R j i Q) (\<lambda>Q'.
       face_loop2 R i j k P' Q' (f0 @ [P, Q])))"

fun face_loop1 ::
  "('p \<Rightarrow> error + 'p) list \<Rightarrow> nat \<Rightarrow> nat \<Rightarrow> nat \<Rightarrow> 'p \<Rightarrow> 'p list \<Rightarrow> error + 'p list" where
  "face_loop1 R a b 0 P f0 = Inr f0"
| "face_loop1 R a b (Suc k) P f0 =
     bindE (reflect2 R a b P) (\<lambda>P'. face_loop1 R a b k P' (f0 @ [P]))"

text \<open>Python's \<^verbatim>\<open>and\<close>: the right operand is evaluated only when the left one is true.\<close>

definition andE :: "error + bool \<Rightarrow> error + bool \<Rightarrow> error + bool" where
  "andE a b = bindE a (\<lambda>x. if x then b else Inr False)"

definition cox_entry :: "'q tiling \<Rightarrow> nat \<Rightarrow> nat \<Rightarrow> error + int" where
  "cox_entry T i j = bindE (idx (cox_mat T) i) (\<lambda>row. idx row j)"

text \<open>
  The body of the loop over the pairs: the face of the pair \<open>(i, j)\<close>, or \<open>None\<close> where
  the source goes on to the next pair (\<^verbatim>\<open>continue\<close>). \<^verbatim>\<open>range(n)\<close> makes
  \<open>nat n\<close> rounds, none for \<open>n \<le> 0\<close>.
\<close>

definition get_face :: "'q tiling \<Rightarrow> nat \<times> nat \<Rightarrow> error + vec list option" where
  "get_face T ij =
     (case ij of (i, j) \<Rightarrow>
        let P = init_v T in
        bindE (andE (idx (active T) i) (idx (active T) j)) (\<lambda>both.
        if both then
          bindE (idx (reflections T) j) (\<lambda>rj.
          bindE (rj P) (\<lambda>Q.
          bindE (cox_entry T i j) (\<lambda>n.
          bindE (face_loop2 (reflections T) i j (nat n) P Q []) (\<lambda>f0. Inr (Some f0)))))
        else
          bindE (andE (idx (active T) i) (bindE (cox_entry T i j) (\<lambda>n. Inr (2 < n)))) (\<lambda>only_i.
          if only_i then
            bindE (cox_entry T i j) (\<lambda>n.
            bindE (face_loop1 (reflections T) j i (nat n) P []) (\<lambda>f0. Inr (Some f0)))
          else
            bindE (andE (idx (active T) j) (bindE (cox_entry T i j) (\<lambda>n. Inr (2 < n)))) (\<lambda>only_j.
            if only_j then
              bindE (cox_entry T i j) (\<lambda>n.
              bindE (face_loop1 (reflections T) i j (nat n) P []) (\<lambda>f0. Inr (Some f0)))
            else Inr None))))"

text \<open>
  \<^verbatim>\<open>get_fundamental_faces\<close> runs over \<^verbatim>\<open>combinations(range(3), 2)\<close> and appends each
  face to the attribute \<^verbatim>\<open>fundamental_faces\<close>. It returns the instance as the method
  leaves it, and the exception that ended it, if one did.
\<close>

fun faces_loop :: "'q tiling \<Rightarrow> (nat \<times> nat) list \<Rightarrow> 'q tiling \<times> error option" where
  "faces_loop T [] = (T, None)"
| "faces_loop T (ij # pairs) =
     (case get_face T ij of
        Inl e \<Rightarrow> (T, Some e)
      | Inr None \<Rightarrow> faces_loop T pairs
      | Inr (Some f0) \<Rightarrow>
          faces_loop (T\<lparr>fundamental_faces := fundamental_faces T @ [f0]\<rparr>) pairs)"

definition get_fundamental_faces :: "'q tiling \<Rightarrow> 'q tiling \<times> error option" where
  "get_fundamental_faces T = faces_loop T [(0, 1), (0, 2), (1, 2)]"

subsection \<open>Drawing\<close>

text \<open>
  \<^verbatim>\<open>[((value >> (8 * k)) & 255) / 255.0 for k in (2, 1, 0)]\<close> on a Python integer.
\<close>

definition hex_to_rgb :: "int \<Rightarrow> real list" where
  "hex_to_rgb val = map (\<lambda>k. real_of_int (drop_bit (8 * k) val AND 255) / 255) [2, 1, 0]"

text \<open>
  \<^verbatim>\<open>inset_corners\<close>. Its points are the arrays that \<^verbatim>\<open>project_to_plane\<close> returns, of
  two components, or of one when the projected array had one only; then \<^verbatim>\<open>p[1]\<close> raises
  \<^verbatim>\<open>IndexError\<close>. On the empty list the centroid is \<^verbatim>\<open>nan\<close> and the result is empty.
  \<open>get_point\<close> is the local function, with \<^verbatim>\<open>margin\<close> as a parameter.
\<close>

definition get_point :: "real \<Rightarrow> vec \<Rightarrow> vec \<Rightarrow> npfloat \<times> npfloat" where
  "get_point margin p q =
     (let vx = p ! 0 - q ! 0;
          vy = p ! 1 - q ! 1;
          r = np_sqrt (vx * vx + vy * vy);
          t = Fin 1 - Fin margin / r
      in (q ! 0 + t * vx, q ! 1 + t * vy))"

definition inset_corners :: "vec list \<Rightarrow> real \<Rightarrow> error + (npfloat \<times> npfloat) list" where
  "inset_corners points margin =
     (if points = [] then Inr []
      else if list_all (\<lambda>p. length p = 2) points then
        (let q = map (\<lambda>k. foldl (+) (Fin 0) (map (\<lambda>p. p ! k) points)
                             / Fin (real (length points))) [0, 1]
         in Inr (map (\<lambda>p. get_point margin p q) points))
      else Inl IndexError)"

text \<open>
  The calls made on the cairo surface and context, in order: the effect of \<^verbatim>\<open>draw\<close>.
\<close>

datatype cmd =
    ImageSurface int int
  | Scale real real
  | Translate real real
  | SetSourceRgb real real real
  | Paint
  | SetLineWidth real
  | SetLineCap
  | SetLineJoin
  | MoveTo npfloat npfloat
  | LineTo npfloat npfloat
  | FillPreserve
  | Stroke
  | WriteToPng string

definition set_source_rgb :: "real list \<Rightarrow> cmd" where
  "set_source_rgb c = SetSourceRgb (c ! 0) (c ! 1) (c ! 2)"

text \<open>
  The body of the inner loop of \<^verbatim>\<open>draw\<close> for one polygon of face number \<open>i\<close>: the
  calls made, and the exception that ended them, if one did. \<open>face_colors\<close> is \<open>None\<close>
  for Python's \<^verbatim>\<open>None\<close>.
\<close>

definition draw_shape ::
  "real \<Rightarrow> int \<Rightarrow> int list option \<Rightarrow> nat \<Rightarrow> vec list \<Rightarrow> cmd list \<times> error option" where
  "draw_shape margin edge_color face_colors i shape =
     (case bindE (mapE project_to_plane shape) (\<lambda>pts. inset_corners pts margin) of
        Inl e \<Rightarrow> ([], Some e)
      | Inr [] \<Rightarrow> ([], Some IndexError)
      | Inr (p # qs) \<Rightarrow>
          (let path = MoveTo (fst p) (snd p) # map (\<lambda>q. LineTo (fst q) (snd q)) qs
                        @ [LineTo (fst p) (snd p)];
               edge = [set_source_rgb (hex_to_rgb edge_color), Stroke]
           in case face_colors of
                None \<Rightarrow> (path @ edge, None)
              | Some colors \<Rightarrow>
                  (case idx colors i of
                     Inl e \<Rightarrow> (path, Some e)
                   | Inr c \<Rightarrow>
                       (path @ [set_source_rgb (hex_to_rgb c), FillPreserve] @ edge, None))))"

fun draw_records ::
  "real \<Rightarrow> int \<Rightarrow> int list option \<Rightarrow> nat \<Rightarrow> ('q, vec) trec list \<Rightarrow> cmd list \<times> error option" where
  "draw_records margin edge_color face_colors i [] = ([], None)"
| "draw_records margin edge_color face_colors i ((state, word, steps, shape) # recs) =
     (case draw_shape margin edge_color face_colors i shape of
        (cs, Some e) \<Rightarrow> (cs, Some e)
      | (cs, None) \<Rightarrow>
          (case draw_records margin edge_color face_colors i recs of
             (cs', err) \<Rightarrow> (cs @ cs', err)))"

text \<open>
  The loop over \<^verbatim>\<open>enumerate(self.fundamental_faces)\<close>. The polygons that the generator
  yielded before an exception are drawn before the exception leaves the loop.
\<close>

fun draw_faces ::
  "'q tiling \<Rightarrow> int \<Rightarrow> real \<Rightarrow> int \<Rightarrow> int list option \<Rightarrow> nat \<Rightarrow> vec list list
     \<Rightarrow> cmd list \<times> error option" where
  "draw_faces T depth margin edge_color face_colors i [] = ([], None)"
| "draw_faces T depth margin edge_color face_colors i (face # faces) =
     (case traverse T depth face of
        (recs, stopped) \<Rightarrow>
          (case draw_records margin edge_color face_colors i recs of
             (cs, Some e) \<Rightarrow> (cs, Some e)
           | (cs, None) \<Rightarrow>
               (case stopped of
                  Some e \<Rightarrow> (cs, Some e)
                | None \<Rightarrow>
                    (case draw_faces T depth margin edge_color face_colors (Suc i) faces of
                       (cs', err) \<Rightarrow> (cs @ cs', err)))))"

text \<open>
  \<^verbatim>\<open>draw\<close>. A keyword argument that the caller leaves out is \<open>None\<close> here and takes the
  default of the signature; \<open>face_colors = Some None\<close> is the call with
  \<^verbatim>\<open>face_colors=None\<close>. The result is the instance as the call leaves it, the calls made
  on cairo, and the exception that ended the call, if one did. \<^verbatim>\<open>image_height / extent\<close>
  is a division of Python numbers, which raises \<^verbatim>\<open>ZeroDivisionError\<close>.
\<close>

definition draw ::
  "'q tiling \<Rightarrow> string \<Rightarrow> int \<Rightarrow> int \<Rightarrow> real \<Rightarrow> int \<Rightarrow> real option \<Rightarrow> real option \<Rightarrow> int option
     \<Rightarrow> int list option option \<Rightarrow> 'q tiling \<times> cmd list \<times> error option" where
  "draw T output image_width image_height extent depth line_width margin edge_color face_colors =
     (let line_width = (case line_width of None \<Rightarrow> 0.2 | Some w \<Rightarrow> w);
          margin = (case margin of None \<Rightarrow> 0.3 | Some m \<Rightarrow> m);
          edge_color = (case edge_color of None \<Rightarrow> 0x313E4A | Some c \<Rightarrow> c);
          face_colors =
            (case face_colors of None \<Rightarrow> Some [0x477984, 0xEEAA4D, 0xC03C44] | Some cs \<Rightarrow> cs);
          surface = [ImageSurface image_width image_height]
      in if extent = 0 then (T, surface, Some ZeroDivisionError)
         else
           let setup = surface @
                 [Scale (real_of_int image_height / extent) (real_of_int image_height / extent),
                  Translate (extent / 2) (extent / 2),
                  SetSourceRgb 0 0 0, Paint, SetLineWidth line_width, SetLineCap, SetLineJoin]
           in case get_fundamental_faces T of
                (T', Some e) \<Rightarrow> (T', setup, Some e)
              | (T', None) \<Rightarrow>
                  (case draw_faces T' depth margin edge_color face_colors 0 (fundamental_faces T') of
                     (cs, Some e) \<Rightarrow> (T', setup @ cs, Some e)
                   | (cs, None) \<Rightarrow> (T', setup @ cs @ [WriteToPng output], None)))"

subsection \<open>Reference notions for the statements\<close>

text \<open>
  The word of a record acting on the seed: for each symbol of the word in order, the
  reflection of that index applied to every vertex.
\<close>

fun apply_word :: "('p \<Rightarrow> error + 'p) list \<Rightarrow> nat list \<Rightarrow> 'p list \<Rightarrow> error + 'p list" where
  "apply_word R [] shape = Inr shape"
| "apply_word R (symbol # word) shape =
     bindE (reflect_shape R symbol shape) (apply_word R word)"





definition word_ok :: "('p \<Rightarrow> error + 'p) list \<Rightarrow> 'p list \<Rightarrow> ('q, 'p) trec \<Rightarrow> bool" where
  "word_ok R seed rec =
     (case rec of (state, word, steps, shape) \<Rightarrow>
        length word = steps \<and> apply_word R word seed = Inr shape)"


text \<open>
  The reflection of \<^verbatim>\<open>reflect\<close> as a function on arrays of the length of the normal, the
  rotation \<open>v \<mapsto> reflections[a](reflections[b](v))\<close>, and the shape of the matrix of the
  mirrors and of the vector of distances of an instance.
\<close>

definition reflection :: "vec \<Rightarrow> npfloat \<Rightarrow> vec \<Rightarrow> vec" where
  "reflection normal dst v = map2 (\<lambda>x n. x - Fin 2 * (np_dot v normal + dst) * n) v normal"



text \<open>
  Points and normals of three finite components, for the geometry of the mirrors:
  \<open>fin3\<close> is the array of a triple of reals, \<open>refl3\<close> the reflection on triples,
  and \<open>lin3 P a b u w\<close> the point \<open>P + u a + w b\<close>.
\<close>

type_synonym real3 = "real \<times> real \<times> real"

definition fin3 :: "real3 \<Rightarrow> vec" where
  "fin3 v = (case v of (x, y, z) \<Rightarrow> [Fin x, Fin y, Fin z])"



definition lin3 :: "real3 \<Rightarrow> real3 \<Rightarrow> real3 \<Rightarrow> real \<Rightarrow> real \<Rightarrow> real3" where
  "lin3 P a b u w =
     (case P of (x, y, z) \<Rightarrow> case a of (a1, a2, a3) \<Rightarrow> case b of (b1, b2, b3) \<Rightarrow>
        (x + u * a1 + w * b1, y + u * a2 + w * b2, z + u * a3 + w * b3))"


text \<open>The rows of the mirror matrix of the Coxeter matrix \<open>[[1, p, q], [p, 1, r], [q, r, 1]]\<close>.\<close>

definition mirror_rows :: "int \<Rightarrow> int \<Rightarrow> int \<Rightarrow> real3 list" where
  "mirror_rows p q r =
     (let c10 = - cos (pi / real_of_int p);
          c20 = - cos (pi / real_of_int q);
          c21 = - cos (pi / real_of_int r);
          m11 = sqrt (1 - c10 * c10);
          m21 = (c21 - c20 * c10) / m11;
          m22 = sqrt \<bar>c20 * c20 + m21 * m21 - 1\<bar>
      in [(1, 0, 0), (c10, m11, 0), (c20, m21, m22)])"

text \<open>
  An instance for the examples: the tiling \<open>(2, 4, 4)\<close> with the distances \<open>(1, 1, 1)\<close> of
  the script's \<^verbatim>\<open>main\<close>, with the mirrors of its Coxeter matrix, an initial point off the
  three mirrors, and a small automaton in place of the one of the missing module.
\<close>

definition tiling_244 :: "nat tiling" where
  "tiling_244 =
     \<lparr>active = [True, True, True],
      cox_mat = [[1, 2, 4], [2, 1, 4], [4, 4, 1]],
      dfa = \<lparr>start = 0,
             all_transitions = (\<lambda>s. if s = 0 then [(0, 1), (1, 2), (2, 3)] else [])\<rparr>,
      mirrors = [[Fin 1, Fin 0, Fin 0], [Fin 0, Fin 1, Fin 0],
                 [Fin (- (sqrt 2 / 2)), Fin (- (sqrt 2 / 2)), Fin 0]],
      init_v = [Fin 1, Fin 1, Fin 1],
      reflections = get_reflections
         [[Fin 1, Fin 0, Fin 0], [Fin 0, Fin 1, Fin 0],
          [Fin (- (sqrt 2 / 2)), Fin (- (sqrt 2 / 2)), Fin 0]] [Fin 1, Fin 1, Fin 1],
      fundamental_faces = []\<rparr>"

section \<open>Properties\<close>

subsection \<open>Exceptions as values\<close>

lemma bindE_simps [simp]:
  "bindE (Inl e) f = Inl e" "bindE (Inr x) f = f x"
  by (simp_all add: bindE_def)

lemma bindE_eq_Inr: "bindE m f = Inr y \<longleftrightarrow> (\<exists>x. m = Inr x \<and> f x = Inr y)"
  by (cases m) simp_all

lemma yield_simps [simp]: "fst (yield x rest) = x # fst rest" "snd (yield x rest) = snd rest"
  by (simp_all add: yield_def)

subsection \<open>Arithmetic of the scalars\<close>

lemma Fin_minus [simp]: "Fin x - Fin y = Fin (x - y)"
  by (simp add: minus_npfloat_def)

lemma NaN_absorbs [simp]:
  "x + NaN = NaN" "NaN + x = NaN" "x * NaN = NaN" "NaN * x = NaN"
  "x / NaN = NaN" "NaN / x = NaN" "x - NaN = NaN" "NaN - x = NaN"
  by (cases x; simp add: minus_npfloat_def)+




subsection \<open>The mirror matrix\<close>







subsection \<open>The projection\<close>




subsection \<open>The reflection operators\<close>



subsection \<open>The traversal\<close>

lemma apply_word_snoc:
  "apply_word R (word @ [symbol]) shape =
     bindE (apply_word R word shape) (reflect_shape R symbol)"
  by (induction word arbitrary: shape) (auto simp: bindE_def split: sum.splits)

lemma mapE_Inr_all:
  assumes "mapE f xs = Inr ys" and "y \<in> set ys"
  shows "\<exists>x \<in> set xs. f x = Inr y"
  using assms
proof (induction xs arbitrary: ys)
  case Nil
  then show ?case by simp
next
  case (Cons x xs)
  then show ?case by (auto simp: bindE_eq_Inr)
qed

lemma successors_word_ok:
  assumes "successors tr R rec = Inr new" and "word_ok R seed rec" and "r \<in> set new"
  shows "word_ok R seed r"
proof -
  obtain state word steps shape where rec: "rec = (state, word, steps, shape)"
    by (cases rec) auto
  from mapE_Inr_all [OF assms(1) [unfolded successors_def rec prod.case] assms(3)]
  obtain symbol target shape' where
    "reflect_shape R symbol shape = Inr shape'" "r = (target, word @ [symbol], steps + 1, shape')"
    by (auto simp: bindE_eq_Inr)
  with assms(2) show ?thesis
    by (simp add: word_ok_def rec apply_word_snoc)
qed

lemma traverse_loop_invariant:
  assumes "\<And>rec new r. P rec \<Longrightarrow> successors tr R rec = Inr new \<Longrightarrow> r \<in> set new \<Longrightarrow> P r"
    and "list_all P queue"
  shows "list_all P (fst (traverse_loop tr R depth queue))"
  using assms
proof (induction tr R depth queue rule: traverse_loop.induct)
  case (1 tr R depth)
  then show ?case by simp
next
  case (2 tr R depth state word steps shape queue)
  note step = "2.prems"(1) and inv = "2.prems"(2)
  show ?case
  proof (cases "int steps < depth")
    case True
    show ?thesis
    proof (cases "successors tr R (state, word, steps, shape)")
      case (Inl e)
      with True inv show ?thesis by simp
    next
      case (Inr new)
      have "list_all P new"
        using step [OF _ Inr] inv by (auto simp: list_all_iff)
      with inv have "list_all P (queue @ new)" by simp
      from "2.IH"(1) [OF True Inr step this] True Inr inv show ?thesis by simp
    qed
  next
    case False
    with "2.IH"(2) [OF False step] inv show ?thesis by simp
  qed
qed

lemma traverse_word_ok:
  "list_all (word_ok (reflections T) face) (fst (traverse T depth face))"
  unfolding traverse_def
proof (rule traverse_loop_invariant [where P = "word_ok (reflections T) face"])
  show "word_ok (reflections T) face r"
    if "word_ok (reflections T) face rec"
      and "successors (all_transitions (dfa T)) (reflections T) rec = Inr new"
      and "r \<in> set new" for rec new r
    using that by (blast intro: successors_word_ok)
  show "list_all (word_ok (reflections T) face) [(start (dfa T), [], 0, face)]"
    by (simp add: word_ok_def)
qed











lemma word_ok_eq:
  "word_ok R seed =
     (\<lambda>(state, word, steps, shape). length word = steps \<and> apply_word R word seed = Inr shape)"
  by (auto simp: fun_eq_iff word_ok_def)



text \<open>
  Claim C10. In every record that \<^verbatim>\<open>traverse\<close> yields the word has as many symbols as
  the record has steps, and the polygon is the seed face with the reflections of the
  symbols of the word applied in order to every vertex.
\<close>

theorem traverse_word_action:
  "list_all (\<lambda>(state, word, steps, shape).
              length word = steps \<and> apply_word (reflections T) word face = Inr shape)
     (fst (traverse T depth face))"
  using traverse_word_ok [of T face depth] by (simp add: word_ok_eq)

lemma traverse_244:
  "traverse tiling_244 1 [[Fin 1, Fin 1, Fin 1]] =
     ([(0, [], 0, [[Fin 1, Fin 1, Fin 1]]),
       (1, [0], 1, [[Fin (- 3), Fin 1, Fin 1]]),
       (2, [1], 1, [[Fin 1, Fin (- 3), Fin 1]]),
       (3, [2], 1, [[Fin (sqrt 2 - 1), Fin (sqrt 2 - 1), Fin 1]])], None)"
  apply (simp add: traverse_def tiling_244_def successors_def reflect_shape_def idx_def
      get_reflections_def reflect_def np_dot_def yield_def)
  apply (simp add: field_simps)
  done



theorem traverse_word_action_witness:
  "(2, [1], 1, [[Fin 1, Fin (- 3), Fin 1]]) \<in> set (fst (traverse tiling_244 1 [[Fin 1, Fin 1, Fin 1]])) \<and>
   apply_word (reflections tiling_244) [1] [[Fin 1, Fin 1, Fin 1]] = Inr [[Fin 1, Fin (- 3), Fin 1]]"
  using traverse_word_action [of tiling_244 "[[Fin 1, Fin 1, Fin 1]]" 1]
  unfolding traverse_244 by simp

subsection \<open>The fundamental faces\<close>


lemma length_reflection [simp]:
  "length (reflection normal dst v) = min (length v) (length normal)"
  by (simp add: reflection_def)







lemma get_face_faces_update [simp]:
  "get_face (T\<lparr>fundamental_faces := fs\<rparr>) ij = get_face T ij"
  by (simp add: get_face_def cox_entry_def Let_def split: prod.split cong: if_cong)

lemma faces_loop_appends:
  "\<exists>new. \<forall>fs. faces_loop (T\<lparr>fundamental_faces := fs\<rparr>) pairs =
            (T\<lparr>fundamental_faces := fs @ new\<rparr>, snd (faces_loop T pairs))"
proof (induction pairs arbitrary: T)
  case Nil
  show ?case by (intro exI [of _ "[]"]) simp
next
  case (Cons ij pairs)
  show ?case
  proof (cases "get_face T ij")
    case (Inl e)
    then show ?thesis by (intro exI [of _ "[]"]) simp
  next
    case (Inr fo)
    show ?thesis
    proof (cases fo)
      case None
      with Inr Cons.IH [of T] show ?thesis by simp
    next
      case (Some f0)
      obtain new where new: "\<And>fs. faces_loop (T\<lparr>fundamental_faces := fs\<rparr>) pairs =
            (T\<lparr>fundamental_faces := fs @ new\<rparr>, snd (faces_loop T pairs))"
        using Cons.IH [of T] by blast
      have "faces_loop (T\<lparr>fundamental_faces := fs\<rparr>) (ij # pairs) =
            (T\<lparr>fundamental_faces := fs @ (f0 # new)\<rparr>, snd (faces_loop T (ij # pairs)))" for fs
        using Inr Some new [of "fs @ [f0]"] new [of "fundamental_faces T @ [f0]"] by simp
      then show ?thesis by blast
    qed
  qed
qed

text \<open>
  Claim C9, amended. The face list is not cached. Each call of \<^verbatim>\<open>get_fundamental_faces\<close>,
  and \<^verbatim>\<open>draw\<close> makes one whenever it gets past the scaling, appends the faces of the
  pairs to the stored list: after the first build the list is the one before followed by
  the new faces, and after a second build the new faces stand in it twice. The two lists
  are equal only when no pair yields a face.
\<close>

theorem faces_built_again:
  "\<exists>new. fundamental_faces (fst (get_fundamental_faces T)) = fundamental_faces T @ new \<and>
         fundamental_faces (fst (get_fundamental_faces (fst (get_fundamental_faces T)))) =
           fundamental_faces T @ new @ new \<and>
         (fundamental_faces (fst (get_fundamental_faces (fst (get_fundamental_faces T)))) =
            fundamental_faces (fst (get_fundamental_faces T)) \<longleftrightarrow> new = []) \<and>
         fst (draw T output image_width image_height extent depth line_width margin
                edge_color face_colors) =
           (if extent = 0 then T else fst (get_fundamental_faces T))"
proof -
  obtain new where new: "\<And>fs. faces_loop (T\<lparr>fundamental_faces := fs\<rparr>) [(0, 1), (0, 2), (1, 2)] =
            (T\<lparr>fundamental_faces := fs @ new\<rparr>, snd (faces_loop T [(0, 1), (0, 2), (1, 2)]))"
    using faces_loop_appends [of T] by blast
  have 1: "get_fundamental_faces T = (T\<lparr>fundamental_faces := fundamental_faces T @ new\<rparr>,
      snd (faces_loop T [(0, 1), (0, 2), (1, 2)]))"
    using new [of "fundamental_faces T"] by (simp add: get_fundamental_faces_def)
  have 2: "get_fundamental_faces (T\<lparr>fundamental_faces := fundamental_faces T @ new\<rparr>) =
      (T\<lparr>fundamental_faces := (fundamental_faces T @ new) @ new\<rparr>,
      snd (faces_loop T [(0, 1), (0, 2), (1, 2)]))"
    using new [of "fundamental_faces T @ new"] by (simp add: get_fundamental_faces_def)
  have 3: "fst (draw T output image_width image_height extent depth line_width margin
                edge_color face_colors) =
           (if extent = 0 then T else fst (get_fundamental_faces T))"
    by (simp add: draw_def Let_def split: prod.split option.split)
  show ?thesis
    using 2 3 unfolding 1 by (intro exI [of _ new]) simp
qed


theorem faces_built_again_witness:
  "fst (draw tiling_244 ''244-111.png'' 1200 960 30 0 None None None None) =
     fst (get_fundamental_faces tiling_244)"
  using faces_built_again [of tiling_244 "''244-111.png''" 1200 960 30 0 None None None None]
  by auto

lemma get_face_244_01:
  "get_face tiling_244 (0, 1) =
     Inr (Some [[Fin 1, Fin 1, Fin 1], [Fin 1, Fin (- 3), Fin 1],
                [Fin (- 3), Fin (- 3), Fin 1], [Fin (- 3), Fin 1, Fin 1]])"
  by (simp add: tiling_244_def get_face_def andE_def idx_def cox_entry_def
      get_reflections_def reflect_def reflect2_def np_dot_def eval_nat_numeral)

lemma faces_loop_first:
  assumes "get_face T ij = Inr (Some f0)"
  shows "\<exists>new. \<forall>fs. faces_loop (T\<lparr>fundamental_faces := fs\<rparr>) (ij # pairs) =
            (T\<lparr>fundamental_faces := fs @ f0 # new\<rparr>, snd (faces_loop T (ij # pairs)))"
proof -
  obtain new where new: "\<And>fs. faces_loop (T\<lparr>fundamental_faces := fs\<rparr>) pairs =
        (T\<lparr>fundamental_faces := fs @ new\<rparr>, snd (faces_loop T pairs))"
    using faces_loop_appends [of T pairs] by blast
  have "faces_loop (T\<lparr>fundamental_faces := fs\<rparr>) (ij # pairs) =
        (T\<lparr>fundamental_faces := fs @ f0 # new\<rparr>, snd (faces_loop T (ij # pairs)))" for fs
    using assms new [of "fs @ [f0]"] new [of "fundamental_faces T @ [f0]"] by simp
  then show ?thesis by blast
qed

text \<open>
  The claim as it was stated fails on the example: its first face is built twice.
\<close>

theorem second_build_counterexample:
  "fundamental_faces (fst (get_fundamental_faces (fst (get_fundamental_faces tiling_244)))) \<noteq>
   fundamental_faces (fst (get_fundamental_faces tiling_244))"
proof -
  obtain f0 new err where
    new: "\<And>fs. get_fundamental_faces (tiling_244\<lparr>fundamental_faces := fs\<rparr>) =
      (tiling_244\<lparr>fundamental_faces := fs @ f0 # new\<rparr>, err)"
    using faces_loop_first [OF get_face_244_01, of "[(0, 2), (1, 2)]"]
    unfolding get_fundamental_faces_def by blast
  have "tiling_244 = tiling_244\<lparr>fundamental_faces := []\<rparr>"
    by (simp add: tiling_244_def)
  then have 1: "get_fundamental_faces tiling_244 =
      (tiling_244\<lparr>fundamental_faces := f0 # new\<rparr>, err)"
    using new [of "[]"] by simp
  have 2: "get_fundamental_faces (tiling_244\<lparr>fundamental_faces := f0 # new\<rparr>) =
      (tiling_244\<lparr>fundamental_faces := (f0 # new) @ f0 # new\<rparr>, err)"
    by (rule new)
  show ?thesis
    unfolding 1 fst_conv 2 by simp
qed

subsection \<open>The drawing\<close>

lemma count_list_LineTo [simp]:
  "count_list (map (\<lambda>q. LineTo (f q) (g q)) qs) FillPreserve = 0"
  "count_list (map (\<lambda>q. LineTo (f q) (g q)) qs) Stroke = 0"
  by (induction qs) simp_all

lemma count_list_append [simp]:
  "count_list (xs @ ys) x = count_list xs x + count_list ys x"
  by (induction xs) simp_all








lemma traverse_faces_update [simp]:
  "traverse (T\<lparr>fundamental_faces := fs\<rparr>) depth face = traverse T depth face"
  by (simp add: traverse_def)





subsection \<open>The geometry of the mirrors\<close>







lemma lin3_zero [simp]: "lin3 P a b 0 0 = P"
  by (cases P, cases a, cases b) (simp add: lin3_def)






lemma length_mirror_rows [simp]: "length (mirror_rows p q r) = 3"
  by (simp add: mirror_rows_def Let_def)








subsection \<open>Closed faces\<close>

lemma length_concat_pairs [simp]:
  "length (concat (map (\<lambda>k. [A k, B k]) [0..<n])) = 2 * n"
  by (induction n) simp_all







lemma length_fin3 [simp]: "length (fin3 v) = 3"
  by (cases v) (simp add: fin3_def)







end
